theory Spec2Isabelle
  imports Complex_Main "HOL-Library.Sublist"
begin

section \<open>The reconstruction data module (datasets/reconstruction.py)\<close>

text \<open>
  The module is a Python class whose methods mutate the instance and print diagnostics.
  Every method is modelled as a function from the instance before the call to the outcome of
  the call (\<open>Inl\<close> an exception, \<open>Inr\<close> the returned value) paired with the instance after
  the call: an exception does not undo the assignments made before it was raised.
\<close>

subsection \<open>Exceptions, observable effects, values\<close>

datatype error =
    AssertionError
  | AttributeError
  | TypeError
  | ValueError
  | RuntimeError
  | NotImplementedError
  | ArgumentError
  | SystemExit

text \<open>
  What a call does besides changing the instance: it calls the constructor of the dataset
  adapter on a directory, and it prints a line.
\<close>

datatype effect = Constructed string | Printed string

text \<open>
  Modelled from the spec: the dataset adapter (\<open>datasets.utils.ReconstructionDataset\<close>, which
  is not part of the file) is an indexable collection of the samples found under a
  directory: \<open>len\<close> is \<open>length\<close>, \<open>ds[i]\<close> is \<open>ds ! i\<close>, and reading the same index twice gives
  the same sample.
\<close>

type_synonym 'a dataset = "'a list"

text \<open>The parsed command line handed to \<open>__init__\<close>.\<close>

record args =
  arg_data_dir :: string
  arg_train_batch_size :: int
  arg_eval_batch_size :: int
  arg_num_workers :: int
  arg_num_samples :: int

text \<open>
  The instance. An attribute that has not been assigned yet is \<open>None\<close>; \<open>effects\<close> is the
  trace of constructor calls and printed lines so far, oldest first.
\<close>

record 'a datamodule =
  train_dir :: string
  val_dir :: string
  test_dir :: string
  train_batch_size :: int
  eval_batch_size :: int
  num_workers :: int
  num_samples :: int
  train_dataset :: "'a dataset option"
  val_dataset :: "'a dataset option"
  test_dataset :: "'a dataset option"
  effects :: "effect list"

text \<open>Reading an attribute of the instance: a missing attribute raises AttributeError.\<close>

definition getattr :: "'v option \<Rightarrow> error + 'v" where
  "getattr v = (case v of None \<Rightarrow> Inl AttributeError | Some x \<Rightarrow> Inr x)"

text \<open>
  \<open>NotImplemented\<close> is Python's comparison sentinel, not an exception class, and it is not
  callable: evaluating \<open>NotImplemented()\<close> raises TypeError, so the \<open>raise\<close> around it never
  receives an exception to raise.
\<close>

definition NotImplemented_call :: "error + error" where
  "NotImplemented_call = Inl TypeError"

text \<open>\<open>raise e\<close> where \<open>e\<close> is an expression that may itself raise.\<close>

definition raise_expr :: "error + error \<Rightarrow> error" where
  "raise_expr e = (case e of Inl during \<Rightarrow> during | Inr exc \<Rightarrow> exc)"

subsection \<open>Formatting and paths\<close>

text \<open>\<open>str(n)\<close> for a length: the decimal digits of \<open>n\<close>.\<close>

definition digit :: "nat \<Rightarrow> char" where
  "digit d = ''0123456789'' ! d"

function str :: "nat \<Rightarrow> string" where
  "str n = (if n < 10 then [digit n] else str (n div 10) @ [digit (n mod 10)])"
  by pat_completeness auto
termination
  by (relation "measure (\<lambda>n. n)") auto

declare str.simps [simp del]

text \<open>
  \<open>os.path.join(a, b)\<close> with two arguments, as posixpath defines it: an absolute \<open>b\<close>
  replaces \<open>a\<close>; otherwise \<open>b\<close> is appended, after a separator unless \<open>a\<close> is empty or ends
  with one.
\<close>

definition os_path_join :: "string \<Rightarrow> string \<Rightarrow> string" where
  "os_path_join a b =
     (if take 1 b = ''/'' then b
      else if a = [] \<or> last a = CHR ''/'' then a @ b
      else a @ ''/'' @ b)"

subsection \<open>Split resolvers\<close>

text \<open>\<open>BaseReconstructionDataModule._get_split_dirs\<close>: the body is \<open>raise NotImplemented()\<close>.\<close>

definition Base_get_split_dirs :: "string \<Rightarrow> error + string \<times> string \<times> string" where
  "Base_get_split_dirs data_dir = Inl (raise_expr NotImplemented_call)"

text \<open>\<open>Coco2014Reconstruction._get_split_dirs\<close>.\<close>

definition Coco2014_get_split_dirs :: "string \<Rightarrow> string \<times> string \<times> string" where
  "Coco2014_get_split_dirs data_dir =
     (let train = os_path_join data_dir ''train2014'';
          val = os_path_join data_dir ''val2014'';
          test = os_path_join data_dir ''test2014''
      in (train, val, test))"

subsection \<open>Construction\<close>

text \<open>
  \<open>__init__\<close> calls the resolver of the instance's class, given here as \<open>get_split_dirs\<close>,
  and copies four values from \<open>args\<close>. No dataset attribute exists afterwards.
\<close>

definition BaseReconstructionDataModule_init ::
  "(string \<Rightarrow> error + string \<times> string \<times> string) \<Rightarrow> args \<Rightarrow> error + 'a datamodule" where
  "BaseReconstructionDataModule_init get_split_dirs a =
     (case get_split_dirs (arg_data_dir a) of
        Inl e \<Rightarrow> Inl e
      | Inr (tr, va, te) \<Rightarrow>
          Inr \<lparr>train_dir = tr, val_dir = va, test_dir = te,
               train_batch_size = arg_train_batch_size a,
               eval_batch_size = arg_eval_batch_size a,
               num_workers = arg_num_workers a,
               num_samples = arg_num_samples a,
               train_dataset = None, val_dataset = None, test_dataset = None,
               effects = []\<rparr>)"

definition Coco2014Reconstruction :: "args \<Rightarrow> error + 'a datamodule" where
  "Coco2014Reconstruction a =
     BaseReconstructionDataModule_init (\<lambda>d. Inr (Coco2014_get_split_dirs d)) a"

subsection \<open>The precondition check and the phase transitions\<close>

text \<open>
  \<open>prepare_data\<close>: three assertions in sequence (assertions are enabled, as they are unless
  the interpreter runs with \<open>-O\<close>); \<open>exists\<close> is \<open>os.path.exists\<close> on the file system of the
  run. A string is truthy when it is not empty.
\<close>

definition prepare_data :: "(string \<Rightarrow> bool) \<Rightarrow> 'a datamodule \<Rightarrow> (error + unit) \<times> 'a datamodule" where
  "prepare_data exists self =
     (if \<not> (train_dir self \<noteq> [] \<and> exists (train_dir self)) then (Inl AssertionError, self)
      else if \<not> (val_dir self \<noteq> [] \<and> exists (val_dir self)) then (Inl AssertionError, self)
      else if \<not> (test_dir self \<noteq> [] \<and> exists (test_dir self)) then (Inl AssertionError, self)
      else (Inr (), self))"

text \<open>
  \<open>ReconstructionDataset(root_dir=d)\<close>: the constructor is the parameter
  \<open>ReconstructionDataset\<close>, which gives the adapter built over a directory. The call is
  recorded in the trace.
\<close>

definition new_dataset ::
  "(string \<Rightarrow> 'a dataset) \<Rightarrow> string \<Rightarrow> 'a datamodule \<Rightarrow> 'a dataset \<times> 'a datamodule" where
  "new_dataset ReconstructionDataset root_dir self =
     (ReconstructionDataset root_dir, self\<lparr>effects := effects self @ [Constructed root_dir]\<rparr>)"

definition print :: "string \<Rightarrow> 'a datamodule \<Rightarrow> 'a datamodule" where
  "print line self = self\<lparr>effects := effects self @ [Printed line]\<rparr>"

text \<open>\<open>setup(stage)\<close>; the default \<open>stage\<close> is \<open>None\<close>.\<close>

definition setup_stage ::
  "(string \<Rightarrow> 'a dataset) \<Rightarrow> string option \<Rightarrow> 'a datamodule \<Rightarrow> (error + unit) \<times> 'a datamodule" where
  "setup_stage ReconstructionDataset stage self =
     (if stage = Some ''fit'' then
        (case new_dataset ReconstructionDataset (train_dir self) self of (d, s1) \<Rightarrow>
          (let s2 = s1\<lparr>train_dataset := Some d\<rparr> in
            (case getattr (train_dataset s2) of
               Inl e \<Rightarrow> (Inl e, s2)
             | Inr t \<Rightarrow>
                (let s3 = print (''Loaded '' @ str (length t) @ '' train samples'') s2 in
                  (case new_dataset ReconstructionDataset (val_dir s3) s3 of (d', s4) \<Rightarrow>
                    (let s5 = s4\<lparr>val_dataset := Some d'\<rparr> in
                      (case getattr (val_dataset s5) of
                         Inl e \<Rightarrow> (Inl e, s5)
                       | Inr v \<Rightarrow>
                           (Inr (), print (''Loaded '' @ str (length v) @ '' val samples'') s5))))))))
      else if stage = Some ''test'' then
        (case new_dataset ReconstructionDataset (test_dir self) self of (d, s1) \<Rightarrow>
          (let s2 = s1\<lparr>test_dataset := Some d\<rparr> in
            (case getattr (val_dataset s2) of
               Inl e \<Rightarrow> (Inl e, s2)
             | Inr v \<Rightarrow>
                 (Inr (), print (''Loaded '' @ str (length v) @ '' test samples'') s2))))
      else (Inl (raise_expr NotImplemented_call), self))"

subsection \<open>The library's loaders (torch.utils.data)\<close>

text \<open>
  \<open>DataLoader\<close>, \<open>RandomSampler\<close> and the samplers a \<open>DataLoader\<close> builds for itself belong to
  the torch library. They are modelled as the library documents them, for the arguments this
  module passes: \<open>RandomSampler(ds, replacement=True, num_samples=n)\<close> rejects \<open>n \<le> 0\<close>;
  \<open>DataLoader\<close> rejects a negative worker count, and the \<open>BatchSampler\<close> it builds rejects
  a batch size \<open>\<le> 0\<close>; with \<open>shuffle=False\<close> and no sampler it uses a \<open>SequentialSampler\<close>;
  \<open>drop_last\<close> keeps its default \<open>False\<close>. Worker processes change who loads a batch, not
  the order in which batches are delivered, so they do not appear in an epoch.
\<close>

datatype sampler = SequentialSampler | RandomSampler int

definition RandomSampler_init :: "'a dataset \<Rightarrow> int \<Rightarrow> error + sampler" where
  "RandomSampler_init data_source n =
     (if n \<le> 0 then Inl ValueError else Inr (RandomSampler n))"

datatype 'a DataLoader =
  DataLoader (dl_dataset: "'a dataset") (dl_batch_size: int) (dl_num_workers: int)
    (dl_sampler: sampler)

definition DataLoader_init ::
  "'a dataset \<Rightarrow> int \<Rightarrow> int \<Rightarrow> sampler option \<Rightarrow> error + 'a DataLoader" where
  "DataLoader_init ds bsize workers smp =
     (if workers < 0 then Inl ValueError
      else if bsize \<le> 0 then Inl ValueError
      else Inr (DataLoader ds bsize workers
                  (case smp of None \<Rightarrow> SequentialSampler | Some given \<Rightarrow> given)))"

text \<open>
  The random generator is the stream of raw numbers from which a sampler takes its indices;
  drawing an index below \<open>n\<close> reduces the next raw number modulo \<open>n\<close>, so every sequence of
  indices below \<open>n\<close> is the outcome of some generator. The seed a pass draws for its workers
  decides no index and is not part of the stream. \<open>torch.randint(high=0)\<close> raises RuntimeError.
\<close>

type_synonym generator = "nat \<Rightarrow> nat"

definition sampler_iter :: "sampler \<Rightarrow> nat \<Rightarrow> generator \<Rightarrow> (error + nat list) \<times> generator" where
  "sampler_iter smp n g =
     (case smp of
        SequentialSampler \<Rightarrow> (Inr [0..<n], g)
      | RandomSampler k \<Rightarrow>
          if n = 0 then (Inl RuntimeError, g)
          else (Inr (map (\<lambda>i. g i mod n) [0..<nat k]), (\<lambda>i. g (i + nat k))))"

text \<open>
  \<open>BatchSampler.__iter__\<close>: indices are appended to the current batch, a batch is yielded
  when its length equals the batch size, and what is left at the end is yielded when it is
  not empty.
\<close>

fun BatchSampler_iter :: "int \<Rightarrow> 'i list \<Rightarrow> 'i list \<Rightarrow> 'i list list" where
  "BatchSampler_iter bsize batch [] = (if length batch > 0 then [batch] else [])"
| "BatchSampler_iter bsize batch (idx # rest) =
     (let batch' = batch @ [idx]
      in if int (length batch') = bsize then batch' # BatchSampler_iter bsize [] rest
         else BatchSampler_iter bsize batch' rest)"

text \<open>One epoch: the batches of indices, then the batches of samples fetched at them.\<close>

definition batch_indices ::
  "'a DataLoader \<Rightarrow> generator \<Rightarrow> (error + nat list list) \<times> generator" where
  "batch_indices dl g =
     (case sampler_iter (dl_sampler dl) (length (dl_dataset dl)) g of
        (Inl e, g') \<Rightarrow> (Inl e, g')
      | (Inr idxs, g') \<Rightarrow> (Inr (BatchSampler_iter (dl_batch_size dl) [] idxs), g'))"

definition DataLoader_iter ::
  "'a DataLoader \<Rightarrow> generator \<Rightarrow> (error + 'a list list) \<times> generator" where
  "DataLoader_iter dl g =
     (case batch_indices dl g of
        (Inl e, g') \<Rightarrow> (Inl e, g')
      | (Inr batches, g') \<Rightarrow> (Inr (map (map (\<lambda>i. dl_dataset dl ! i)) batches), g'))"

subsection \<open>The batch provider factory\<close>

text \<open>
  Python evaluates the arguments of a call from left to right, so the dataset attribute is
  read before anything is constructed.
\<close>

definition train_dataloader :: "'a datamodule \<Rightarrow> error + 'a DataLoader" where
  "train_dataloader self =
     (case getattr (train_dataset self) of
        Inl e \<Rightarrow> Inl e
      | Inr ds \<Rightarrow>
         (case getattr (train_dataset self) of
            Inl e \<Rightarrow> Inl e
          | Inr data_source \<Rightarrow>
             (case RandomSampler_init data_source (num_samples self) of
                Inl e \<Rightarrow> Inl e
              | Inr smp \<Rightarrow>
                  DataLoader_init ds (train_batch_size self) (num_workers self) (Some smp))))"

definition test_dataloader :: "'a datamodule \<Rightarrow> error + 'a DataLoader" where
  "test_dataloader self =
     (case getattr (test_dataset self) of
        Inl e \<Rightarrow> Inl e
      | Inr ds \<Rightarrow> DataLoader_init ds (eval_batch_size self) (num_workers self) None)"

definition val_dataloader :: "'a datamodule \<Rightarrow> error + 'a DataLoader" where
  "val_dataloader self =
     (case getattr (val_dataset self) of
        Inl e \<Rightarrow> Inl e
      | Inr ds \<Rightarrow> DataLoader_init ds (eval_batch_size self) (num_workers self) None)"

subsection \<open>Histories of calls\<close>

text \<open>
  The training framework calls the methods in some order. \<open>after_calls\<close> is the instance after
  a history of calls, whatever each call returned or raised; requesting a provider does not
  change the instance.
\<close>

datatype call =
    PrepareData
  | Setup "string option"
  | TrainDataloader
  | ValDataloader
  | TestDataloader

definition after_call ::
  "(string \<Rightarrow> bool) \<Rightarrow> (string \<Rightarrow> 'a dataset) \<Rightarrow> 'a datamodule \<Rightarrow> call \<Rightarrow> 'a datamodule" where
  "after_call exists ReconstructionDataset self c =
     (case c of
        PrepareData \<Rightarrow> snd (prepare_data exists self)
      | Setup stage \<Rightarrow> snd (setup_stage ReconstructionDataset stage self)
      | TrainDataloader \<Rightarrow> self
      | ValDataloader \<Rightarrow> self
      | TestDataloader \<Rightarrow> self)"

definition after_calls ::
  "(string \<Rightarrow> bool) \<Rightarrow> (string \<Rightarrow> 'a dataset) \<Rightarrow> 'a datamodule \<Rightarrow> call list \<Rightarrow> 'a datamodule" where
  "after_calls exists ReconstructionDataset self cs =
     foldl (after_call exists ReconstructionDataset) self cs"

subsection \<open>The configuration surface\<close>

text \<open>
  An argument parser is the list of the options declared on it, with argparse's default
  conflict handler: \<open>add_argument\<close> raises ArgumentError, and declares nothing, when its
  option string is already declared on the parser. It is given the keyword arguments the
  module passes; \<open>required\<close> defaults to \<open>False\<close>, \<open>default\<close> to \<open>None\<close>, and \<open>choices\<close>, which
  the module never passes, stays \<open>None\<close>. The argument group shares the parser's table of
  option strings, and its title only affects the help output.
\<close>

datatype argtype = StrType | IntType

datatype argvalue = StrValue string | IntValue int

record argument =
  opt_flag :: string
  opt_help :: string
  opt_type :: argtype
  opt_required :: bool
  opt_default :: "argvalue option"
  opt_choices :: "argvalue list option"

definition add_argument ::
  "argument list \<Rightarrow> string \<Rightarrow> string \<Rightarrow> argtype \<Rightarrow> bool \<Rightarrow> argvalue option \<Rightarrow>
     (error + unit) \<times> argument list" where
  "add_argument parser flag help_text ty req dflt =
     (if flag \<in> set (map opt_flag parser) then (Inl ArgumentError, parser)
      else (Inr (),
            parser @ [\<lparr>opt_flag = flag, opt_help = help_text, opt_type = ty, opt_required = req,
                       opt_default = dflt, opt_choices = None\<rparr>]))"

text \<open>
  \<open>add_argparse_args\<close>: five declarations in sequence on the parent parser, which is changed
  in place; the first one that raises ends the call and leaves the earlier ones declared.
\<close>

definition add_argparse_args :: "argument list \<Rightarrow> (error + unit) \<times> argument list" where
  "add_argparse_args parent_parser =
     (case add_argument parent_parser ''--data_dir'' ''dataset location'' StrType True None of
        (Inl e, p1) \<Rightarrow> (Inl e, p1)
      | (Inr _, p1) \<Rightarrow>
     (case add_argument p1 ''--train_batch_size'' ''batch size for training'' IntType False
             (Some (IntValue 16)) of
        (Inl e, p2) \<Rightarrow> (Inl e, p2)
      | (Inr _, p2) \<Rightarrow>
     (case add_argument p2 ''--eval_batch_size'' ''batch size for validation and testing''
             IntType False (Some (IntValue 64)) of
        (Inl e, p3) \<Rightarrow> (Inl e, p3)
      | (Inr _, p3) \<Rightarrow>
     (case add_argument p3 ''--num_workers'' ''dataloader workers per DDP process'' IntType
             False (Some (IntValue 4)) of
        (Inl e, p4) \<Rightarrow> (Inl e, p4)
      | (Inr _, p4) \<Rightarrow>
     (case add_argument p4 ''--num_samples''
             ''number of images to sample in each training epoch'' IntType False
             (Some (IntValue 50000)) of
        (Inl e, p5) \<Rightarrow> (Inl e, p5)
      | (Inr _, p5) \<Rightarrow> (Inr (), p5))))))"

text \<open>
  The check argparse applies to a converted value: it must be one of the declared choices,
  when choices were declared. A rejected value ends the program (\<open>SystemExit\<close>).
\<close>

definition check_value :: "argument \<Rightarrow> argvalue \<Rightarrow> error + argvalue" where
  "check_value a v =
     (case opt_choices a of
        None \<Rightarrow> Inr v
      | Some cs \<Rightarrow> if v \<in> set cs then Inr v else Inl SystemExit)"

subsection \<open>The scenario of three, two and five files\<close>

text \<open>
  A root \<open>/data\<close> whose \<open>train2014\<close>, \<open>val2014\<close> and \<open>test2014\<close> hold three, two and five files;
  a sample is the name of its file.
\<close>

definition scenario_dataset :: "string \<Rightarrow> string dataset" where
  "scenario_dataset root_dir =
     (if root_dir = ''/data/train2014'' then [''a.jpg'', ''b.jpg'', ''c.jpg'']
      else if root_dir = ''/data/val2014'' then [''d.jpg'', ''e.jpg'']
      else if root_dir = ''/data/test2014'' then [''f.jpg'', ''g.jpg'', ''h.jpg'', ''i.jpg'', ''j.jpg'']
      else [])"

definition scenario_exists :: "string \<Rightarrow> bool" where
  "scenario_exists path =
     (path \<in> set [''/data'', ''/data/train2014'', ''/data/val2014'', ''/data/test2014''])"

definition scenario_args :: args where
  "scenario_args =
     \<lparr>arg_data_dir = ''/data'', arg_train_batch_size = 2, arg_eval_batch_size = 64,
      arg_num_workers = 4, arg_num_samples = 10\<rparr>"

definition scenario_module :: "string datamodule" where
  "scenario_module =
     \<lparr>train_dir = ''/data/train2014'', val_dir = ''/data/val2014'', test_dir = ''/data/test2014'',
      train_batch_size = 2, eval_batch_size = 64, num_workers = 4, num_samples = 10,
      train_dataset = None, val_dataset = None, test_dataset = None, effects = []\<rparr>"

section \<open>Basic facts about the transitions\<close>

lemma getattr_simps [simp]:
  "getattr None = Inl AttributeError"
  "getattr (Some x) = Inr x"
  by (simp_all add: getattr_def)

lemma raise_NotImplemented_call [simp]: "raise_expr NotImplemented_call = TypeError"
  by (simp add: raise_expr_def NotImplemented_call_def)

lemma str_small: "n < 10 \<Longrightarrow> str n = [''0123456789'' ! n]"
  by (subst str.simps) (simp add: digit_def)

lemma setup_stage_fit:
  "setup_stage RD (Some ''fit'') self =
     (Inr (), self\<lparr>train_dataset := Some (RD (train_dir self)),
                   val_dataset := Some (RD (val_dir self)),
                   effects := effects self @
                     [Constructed (train_dir self),
                      Printed (''Loaded '' @ str (length (RD (train_dir self))) @ '' train samples''),
                      Constructed (val_dir self),
                      Printed (''Loaded '' @ str (length (RD (val_dir self))) @ '' val samples'')]\<rparr>)"
  by (simp add: setup_stage_def new_dataset_def print_def)

lemma setup_stage_test_without_val:
  "val_dataset self = None \<Longrightarrow>
   setup_stage RD (Some ''test'') self =
     (Inl AttributeError, self\<lparr>test_dataset := Some (RD (test_dir self)),
                                effects := effects self @ [Constructed (test_dir self)]\<rparr>)"
  by (simp add: setup_stage_def new_dataset_def print_def)

lemma setup_stage_test_with_val:
  "val_dataset self = Some v \<Longrightarrow>
   setup_stage RD (Some ''test'') self =
     (Inr (), self\<lparr>test_dataset := Some (RD (test_dir self)),
                   effects := effects self @
                     [Constructed (test_dir self),
                      Printed (''Loaded '' @ str (length v) @ '' test samples'')]\<rparr>)"
  by (simp add: setup_stage_def new_dataset_def print_def)

lemma setup_stage_other:
  "stage \<noteq> Some ''fit'' \<Longrightarrow> stage \<noteq> Some ''test'' \<Longrightarrow>
   setup_stage RD stage self = (Inl TypeError, self)"
  by (simp add: setup_stage_def)

lemma prepare_data_snd [simp]: "snd (prepare_data ex self) = self"
  by (simp add: prepare_data_def)

text \<open>Only the transition into \<open>fit\<close> assigns the validation adapter, only that into \<open>test\<close> the test adapter.\<close>

lemma setup_stage_val_dataset:
  "stage \<noteq> Some ''fit'' \<Longrightarrow> val_dataset (snd (setup_stage RD stage self)) = val_dataset self"
proof (cases "stage = Some ''test''")
  case True
  then show ?thesis
    by (cases "val_dataset self")
       (simp_all add: setup_stage_test_without_val setup_stage_test_with_val)
next
  case False
  assume "stage \<noteq> Some ''fit''"
  with False show ?thesis by (simp add: setup_stage_other)
qed


lemma after_call_val_dataset:
  "c \<noteq> Setup (Some ''fit'') \<Longrightarrow> val_dataset (after_call ex RD self c) = val_dataset self"
  by (cases c) (simp_all add: after_call_def setup_stage_val_dataset)


lemma after_calls_val_dataset:
  "Setup (Some ''fit'') \<notin> set cs \<Longrightarrow>
   val_dataset (after_calls ex RD self cs) = val_dataset self"
  unfolding after_calls_def
  by (induction cs arbitrary: self) (auto simp: after_call_val_dataset)


lemma init_no_datasets:
  "BaseReconstructionDataModule_init G a = Inr s0 \<Longrightarrow>
   train_dataset s0 = None \<and> val_dataset s0 = None \<and> test_dataset s0 = None \<and> effects s0 = []"
  by (auto simp: BaseReconstructionDataModule_init_def split: sum.splits prod.splits)

lemma scenario_init: "Coco2014Reconstruction scenario_args = Inr scenario_module"
  by (simp add: Coco2014Reconstruction_def BaseReconstructionDataModule_init_def
      Coco2014_get_split_dirs_def os_path_join_def scenario_args_def scenario_module_def)

lemma os_path_join_relative:
  "take 1 b \<noteq> ''/'' \<Longrightarrow> a \<noteq> [] \<Longrightarrow>
   os_path_join a b = (if last a = CHR ''/'' then a else a @ ''/'') @ b"
  by (simp add: os_path_join_def)

section \<open>Histories keep the directories and the training adapter\<close>








section \<open>What the batch sampler yields\<close>

lemma concat_BatchSampler_iter: "concat (BatchSampler_iter b acc xs) = acc @ xs"
  by (induction xs arbitrary: acc) (simp_all add: Let_def)

lemma map_BatchSampler_iter:
  "map (map f) (BatchSampler_iter b acc xs) = BatchSampler_iter b (map f acc) (map f xs)"
  by (induction xs arbitrary: acc) (simp_all add: Let_def)

lemma BatchSampler_iter_sizes:
  "0 < b \<Longrightarrow> int (length acc) < b \<Longrightarrow> x \<in> set (BatchSampler_iter b acc xs) \<Longrightarrow>
   0 < length x \<and> int (length x) \<le> b"
proof (induction xs arbitrary: acc)
  case Nil
  then show ?case by (auto split: if_splits)
next
  case (Cons i rest)
  show ?case
  proof (cases "int (length (acc @ [i])) = b")
    case True
    with Cons.prems(3) have "x = acc @ [i] \<or> x \<in> set (BatchSampler_iter b [] rest)"
      by (simp add: Let_def)
    then show ?thesis
    proof
      assume "x = acc @ [i]"
      with True show ?thesis by simp
    next
      assume "x \<in> set (BatchSampler_iter b [] rest)"
      with Cons.IH [of "[]"] Cons.prems(1) show ?thesis by simp
    qed
  next
    case False
    with Cons.prems(3) have mem: "x \<in> set (BatchSampler_iter b (acc @ [i]) rest)"
      by (simp add: Let_def)
    from False Cons.prems(2) have "int (length (acc @ [i])) < b" by simp
    with Cons.IH [of "acc @ [i]"] Cons.prems(1) mem show ?thesis by blast
  qed
qed

lemma BatchSampler_iter_full:
  "0 < b \<Longrightarrow> int (length acc) < b \<Longrightarrow> x \<in> set (butlast (BatchSampler_iter b acc xs)) \<Longrightarrow>
   int (length x) = b"
proof (induction xs arbitrary: acc)
  case Nil
  then show ?case by (auto split: if_splits)
next
  case (Cons i rest)
  show ?case
  proof (cases "int (length (acc @ [i])) = b")
    case True
    with Cons.prems(3) have "x = acc @ [i] \<or> x \<in> set (butlast (BatchSampler_iter b [] rest))"
      by (auto simp: Let_def split: if_splits)
    then show ?thesis
    proof
      assume "x = acc @ [i]"
      with True show ?thesis by simp
    next
      assume "x \<in> set (butlast (BatchSampler_iter b [] rest))"
      with Cons.IH [of "[]"] Cons.prems(1) show ?thesis by simp
    qed
  next
    case False
    with Cons.prems(3) have mem: "x \<in> set (butlast (BatchSampler_iter b (acc @ [i]) rest))"
      by (simp add: Let_def)
    from False Cons.prems(2) have "int (length (acc @ [i])) < b" by simp
    with Cons.IH [of "acc @ [i]"] Cons.prems(1) mem show ?thesis by blast
  qed
qed

lemma BatchSampler_iter_exact:
  "0 < b \<Longrightarrow> int (length acc) < b \<Longrightarrow> b dvd int (length acc + length xs) \<Longrightarrow>
   x \<in> set (BatchSampler_iter b acc xs) \<Longrightarrow> int (length x) = b"
proof (induction xs arbitrary: acc)
  case Nil
  show ?case
  proof (cases "acc = []")
    case True
    with Nil.prems(4) show ?thesis by simp
  next
    case False
    then have "0 < int (length acc)" by simp
    with Nil.prems(2,3) have False
      using zdvd_not_zless [of "int (length acc)" b] by simp
    then show ?thesis ..
  qed
next
  case (Cons i rest)
  show ?case
  proof (cases "int (length (acc @ [i])) = b")
    case True
    with Cons.prems(4) have "x = acc @ [i] \<or> x \<in> set (BatchSampler_iter b [] rest)"
      by (simp add: Let_def)
    then show ?thesis
    proof
      assume "x = acc @ [i]"
      with True show ?thesis by simp
    next
      assume mem: "x \<in> set (BatchSampler_iter b [] rest)"
      from True have "int (length acc + length (i # rest)) = b + int (length rest)"
        by simp
      with Cons.prems(3) have "b dvd b + int (length rest)"
        by (simp only:)
      then have "b dvd int (length [] + length rest)"
        by simp
      with Cons.IH [of "[]"] Cons.prems(1) mem show ?thesis by simp
    qed
  next
    case False
    with Cons.prems(4) have mem: "x \<in> set (BatchSampler_iter b (acc @ [i]) rest)"
      by (simp add: Let_def)
    from False Cons.prems(2) have lt: "int (length (acc @ [i])) < b" by simp
    from Cons.prems(3) have "b dvd int (length (acc @ [i]) + length rest)" by simp
    with Cons.IH [of "acc @ [i]"] Cons.prems(1) mem lt show ?thesis by blast
  qed
qed

lemma div_round_up_small:
  fixes a b :: int
  assumes "0 < a" "a < b"
  shows "(a + b - 1) div b = 1"
proof -
  have "(a + b - 1) div b = ((a - 1) + b) div b"
    by (simp add: algebra_simps)
  also have "\<dots> = (a - 1) div b + 1"
    using assms by (simp only: div_add_self2)
  also have "(a - 1) div b = 0"
    using assms by simp
  finally show ?thesis by simp
qed

lemma div_round_up_step:
  fixes a b :: int
  assumes "0 < b"
  shows "1 + (a + b - 1) div b = (b + a + b - 1) div b"
proof -
  have "(b + a + b - 1) div b = ((a + b - 1) + b) div b"
    by (simp add: algebra_simps)
  also have "\<dots> = (a + b - 1) div b + 1"
    using assms by (simp only: div_add_self2)
  finally show ?thesis by simp
qed

lemma BatchSampler_iter_count:
  "0 < b \<Longrightarrow> int (length acc) < b \<Longrightarrow>
   int (length (BatchSampler_iter b acc xs)) = (int (length acc + length xs) + b - 1) div b"
proof (induction xs arbitrary: acc)
  case Nil
  show ?case
  proof (cases "acc = []")
    case True
    with Nil.prems show ?thesis by simp
  next
    case False
    then have "0 < int (length acc)" by simp
    then have "(int (length acc) + b - 1) div b = 1"
      using Nil.prems(2) by (rule div_round_up_small)
    with False show ?thesis by simp
  qed
next
  case (Cons i rest)
  show ?case
  proof (cases "int (length (acc @ [i])) = b")
    case True
    have "int (length (BatchSampler_iter b acc (i # rest))) =
            1 + int (length (BatchSampler_iter b [] rest))"
      using True by (simp add: Let_def)
    also have "\<dots> = 1 + (int (length rest) + b - 1) div b"
      using Cons.IH [of "[]"] Cons.prems(1) by simp
    also have "\<dots> = (b + int (length rest) + b - 1) div b"
      using Cons.prems(1) by (rule div_round_up_step)
    also have "b + int (length rest) = int (length acc + length (i # rest))"
      using True by simp
    finally show ?thesis .
  next
    case False
    from False Cons.prems(2) have lt: "int (length (acc @ [i])) < b" by simp
    have "int (length (BatchSampler_iter b acc (i # rest))) =
            int (length (BatchSampler_iter b (acc @ [i]) rest))"
      using False by (simp add: Let_def)
    also have "\<dots> = (int (length (acc @ [i]) + length rest) + b - 1) div b"
      using Cons.IH [of "acc @ [i]"] Cons.prems(1) lt by blast
    finally show ?thesis by simp
  qed
qed

lemma ceiling_as_div:
  fixes n b :: int
  assumes "0 < b"
  shows "(n + b - 1) div b = \<lceil>real_of_int n / real_of_int b\<rceil>"
proof -
  define q where "q = (n + b - 1) div b"
  define r where "r = (n + b - 1) mod b"
  have eq: "n + b - 1 = q * b + r"
    by (simp add: q_def r_def)
  have r: "0 \<le> r" "r < b"
    using assms by (simp_all add: r_def)
  have up: "n \<le> q * b"
    using eq r by linarith
  have "(q - 1) * b = q * b - b"
    by (simp add: algebra_simps)
  with eq r have lo: "(q - 1) * b < n"
    by linarith
  have pos: "0 < real_of_int b"
    using assms by simp
  have "real_of_int n \<le> real_of_int q * real_of_int b"
    using up by (metis of_int_le_iff of_int_mult)
  then have le: "real_of_int n / real_of_int b \<le> real_of_int q"
    using pos by (simp add: pos_divide_le_eq)
  have "real_of_int (q - 1) * real_of_int b < real_of_int n"
    using lo by (metis of_int_less_iff of_int_mult)
  then have "real_of_int (q - 1) < real_of_int n / real_of_int b"
    using pos by (simp add: pos_less_divide_eq)
  then have gt: "real_of_int q - 1 < real_of_int n / real_of_int b"
    by simp
  have "\<lceil>real_of_int n / real_of_int b\<rceil> = q"
    using gt le by (rule ceiling_unique)
  then show ?thesis
    by (simp add: q_def)
qed

lemma BatchSampler_iter_ceiling:
  assumes "0 < b"
  shows "int (length (BatchSampler_iter b [] xs)) = \<lceil>real (length xs) / real_of_int b\<rceil>"
proof -
  have "int (length (BatchSampler_iter b [] xs)) = (int (length xs) + b - 1) div b"
    using BatchSampler_iter_count [of b "[]" xs] assms by simp
  also have "\<dots> = \<lceil>real_of_int (int (length xs)) / real_of_int b\<rceil>"
    using assms by (rule ceiling_as_div)
  finally show ?thesis by simp
qed

section \<open>Providers and epochs\<close>

lemma train_dataloader_eq:
  "train_dataset self = Some ds \<Longrightarrow>
   train_dataloader self =
     (if 0 < num_samples self \<and> 0 \<le> num_workers self \<and> 0 < train_batch_size self
      then Inr (DataLoader ds (train_batch_size self) (num_workers self)
                  (RandomSampler (num_samples self)))
      else Inl ValueError)"
  by (simp add: train_dataloader_def RandomSampler_init_def DataLoader_init_def)

lemma val_dataloader_eq:
  "val_dataset self = Some ds \<Longrightarrow>
   val_dataloader self =
     (if 0 \<le> num_workers self \<and> 0 < eval_batch_size self
      then Inr (DataLoader ds (eval_batch_size self) (num_workers self) SequentialSampler)
      else Inl ValueError)"
  by (simp add: val_dataloader_def DataLoader_init_def)

lemma test_dataloader_eq:
  "test_dataset self = Some ds \<Longrightarrow>
   test_dataloader self =
     (if 0 \<le> num_workers self \<and> 0 < eval_batch_size self
      then Inr (DataLoader ds (eval_batch_size self) (num_workers self) SequentialSampler)
      else Inl ValueError)"
  by (simp add: test_dataloader_def DataLoader_init_def)

lemma DataLoader_iter_sequential:
  "DataLoader_iter (DataLoader ds b w SequentialSampler) g =
     (Inr (BatchSampler_iter b [] ds), g)"
  by (simp add: DataLoader_iter_def batch_indices_def sampler_iter_def map_BatchSampler_iter
      map_nth)

lemma batch_indices_sequential:
  "batch_indices (DataLoader ds b w SequentialSampler) g =
     (Inr (BatchSampler_iter b [] [0..<length ds]), g)"
  by (simp add: batch_indices_def sampler_iter_def)

lemma DataLoader_iter_random:
  "ds \<noteq> [] \<Longrightarrow>
   DataLoader_iter (DataLoader ds b w (RandomSampler n)) g =
     (Inr (BatchSampler_iter b [] (map (\<lambda>i. ds ! (g i mod length ds)) [0..<nat n])),
      (\<lambda>i. g (i + nat n)))"
  by (simp add: DataLoader_iter_def batch_indices_def sampler_iter_def map_BatchSampler_iter
      comp_def)

lemma map_length_constant:
  assumes "\<forall>x \<in> set xs. int (length x) = k" and "int (length xs) = n"
  shows "map length xs = replicate (nat n) (nat k)"
proof -
  have "map length xs = map (\<lambda>_. nat k) xs"
    using assms(1) by (intro map_cong) auto
  also have "\<dots> = replicate (length xs) (nat k)"
    by (simp add: map_replicate_const)
  finally show ?thesis
    using assms(2) by (metis nat_int)
qed

section \<open>The lifecycle controller\<close>

text \<open>
  C1. Entering \<open>test\<close> should construct the test adapter only and report that adapter's size.
  The branch constructs one adapter, for the test directory, but the line it prints takes its
  count from \<open>self.val_dataset\<close>: in the scenario, after \<open>fit\<close>, the transition into \<open>test\<close> adds
  exactly one constructor call to the trace, stores the five test samples, and prints
  ``Loaded 2 test samples'', the size of the validation adapter.
\<close>

theorem test_diagnostic_reports_val_count:
  "setup_stage scenario_dataset (Some ''test'')
     (snd (setup_stage scenario_dataset (Some ''fit'') scenario_module)) =
   (Inr (),
    (snd (setup_stage scenario_dataset (Some ''fit'') scenario_module))
      \<lparr>test_dataset := Some [''f.jpg'', ''g.jpg'', ''h.jpg'', ''i.jpg'', ''j.jpg''],
       effects := effects (snd (setup_stage scenario_dataset (Some ''fit'') scenario_module)) @
         [Constructed ''/data/test2014'', Printed ''Loaded 2 test samples'']\<rparr>)"
  by (simp add: setup_stage_fit setup_stage_test_with_val scenario_module_def
      scenario_dataset_def str_small)

text \<open>
  C10. On a controller that never entered \<open>fit\<close> (whatever else was called on it since its
  construction), entering \<open>test\<close> raises AttributeError, from the diagnostic's read of the
  validation adapter; by then the test adapter has been constructed and stored, and nothing
  has been printed.
\<close>

theorem setup_stage_test_before_fit:
  assumes "BaseReconstructionDataModule_init get_split_dirs a = Inr fresh"
    and "Setup (Some ''fit'') \<notin> set history"
    and "self = after_calls exists ReconstructionDataset fresh history"
  shows "setup_stage ReconstructionDataset (Some ''test'') self =
           (Inl AttributeError,
            self\<lparr>test_dataset := Some (ReconstructionDataset (test_dir self)),
                 effects := effects self @ [Constructed (test_dir self)]\<rparr>)"
proof -
  have "val_dataset fresh = None"
    using assms(1) by (simp add: init_no_datasets)
  then have "val_dataset self = None"
    using assms(2,3) by (simp add: after_calls_val_dataset)
  then show ?thesis
    by (rule setup_stage_test_without_val)
qed

theorem setup_stage_test_before_fit_witness:
  "Setup (Some ''fit'') \<notin> set [PrepareData, Setup None, TestDataloader] \<and>
   setup_stage scenario_dataset (Some ''test'') scenario_module =
     (Inl AttributeError,
      scenario_module\<lparr>test_dataset := Some [''f.jpg'', ''g.jpg'', ''h.jpg'', ''i.jpg'', ''j.jpg''],
                      effects := [Constructed ''/data/test2014'']\<rparr>)"
proof -
  have init: "BaseReconstructionDataModule_init (\<lambda>d. Inr (Coco2014_get_split_dirs d))
                scenario_args = Inr scenario_module"
    using scenario_init by (simp add: Coco2014Reconstruction_def)
  have hist: "Setup (Some ''fit'') \<notin> set [PrepareData, Setup None, TestDataloader]"
    by simp
  have same: "scenario_module =
      after_calls scenario_exists scenario_dataset scenario_module
        [PrepareData, Setup None, TestDataloader]"
    by (simp add: after_calls_def after_call_def setup_stage_other)
  show ?thesis
    using setup_stage_test_before_fit [OF init hist same] hist
    by (simp add: scenario_module_def scenario_dataset_def)
qed

text \<open>
  C7. A stage other than \<open>fit\<close> and \<open>test\<close> should fail with a not-implemented error and
  construct nothing. The branch is \<open>raise NotImplemented()\<close>: with the default \<open>None\<close> and with
  \<open>predict\<close> the call leaves the instance and the trace as they were, and the exception is the
  TypeError of calling \<open>NotImplemented\<close>, not NotImplementedError.
\<close>

theorem setup_stage_unknown_raises_TypeError:
  "setup_stage scenario_dataset None scenario_module = (Inl TypeError, scenario_module) \<and>
   setup_stage scenario_dataset (Some ''predict'') scenario_module =
     (Inl TypeError, scenario_module) \<and>
   fst (setup_stage scenario_dataset None scenario_module) \<noteq> Inl NotImplementedError"
  by (simp add: setup_stage_other)

text \<open>
  C5. The precondition check raises AssertionError exactly when one of the three split paths
  is empty or does not exist, and returns normally otherwise; in both cases the instance and
  the trace are unchanged, so no adapter has been constructed.
\<close>

theorem prepare_data_assertion:
  "prepare_data exists self =
     (if train_dir self = [] \<or> \<not> exists (train_dir self) \<or>
         val_dir self = [] \<or> \<not> exists (val_dir self) \<or>
         test_dir self = [] \<or> \<not> exists (test_dir self)
      then Inl AssertionError else Inr (),
      self)"
  by (simp add: prepare_data_def)

theorem prepare_data_assertion_witness:
  "prepare_data scenario_exists scenario_module = (Inr (), scenario_module) \<and>
   prepare_data (\<lambda>p. p \<noteq> ''/data/test2014'' \<and> scenario_exists p) scenario_module =
     (Inl AssertionError, scenario_module)"
  using prepare_data_assertion [of scenario_exists scenario_module]
    prepare_data_assertion [of "\<lambda>p. p \<noteq> ''/data/test2014'' \<and> scenario_exists p" scenario_module]
  by (simp add: scenario_exists_def scenario_module_def)



section \<open>The split resolvers\<close>

text \<open>
  C6. For a non-empty root \<open>R\<close> the Coco2014 resolver, a function of \<open>R\<close> alone, returns \<open>R\<close>
  followed by a separator (unless \<open>R\<close> ends with one) and by \<open>train2014\<close>, \<open>val2014\<close> and
  \<open>test2014\<close>: three non-empty, pairwise distinct paths, each a proper extension of \<open>R\<close>.
\<close>

theorem Coco2014_get_split_dirs_nested:
  assumes "R \<noteq> []"
  shows "case Coco2014_get_split_dirs R of (tr, va, te) \<Rightarrow>
           tr = (if last R = CHR ''/'' then R else R @ ''/'') @ ''train2014'' \<and>
           va = (if last R = CHR ''/'' then R else R @ ''/'') @ ''val2014'' \<and>
           te = (if last R = CHR ''/'' then R else R @ ''/'') @ ''test2014'' \<and>
           tr \<noteq> [] \<and> va \<noteq> [] \<and> te \<noteq> [] \<and>
           tr \<noteq> va \<and> tr \<noteq> te \<and> va \<noteq> te \<and>
           strict_prefix R tr \<and> strict_prefix R va \<and> strict_prefix R te"
  using assms
  by (simp add: Coco2014_get_split_dirs_def os_path_join_relative strict_prefix_def)

theorem Coco2014_get_split_dirs_nested_witness:
  "''/data'' \<noteq> [] \<and>
   Coco2014_get_split_dirs ''/data'' = (''/data/train2014'', ''/data/val2014'', ''/data/test2014'') \<and>
   strict_prefix ''/data'' ''/data/train2014''"
  using Coco2014_get_split_dirs_nested [of "''/data''"]
  by (simp split: prod.splits)

text \<open>
  C8. The base resolver should fail with a not-implemented error on every input. Its body is
  \<open>raise NotImplemented()\<close>: it fails on every input, and so does constructing an instance that
  resolves through it, but the exception is the TypeError of calling \<open>NotImplemented\<close>, not
  NotImplementedError.
\<close>

theorem Base_get_split_dirs_raises_TypeError:
  "Base_get_split_dirs ''/data'' = Inl TypeError \<and>
   Base_get_split_dirs ''/data'' \<noteq> Inl NotImplementedError \<and>
   (BaseReconstructionDataModule_init Base_get_split_dirs scenario_args
      :: error + string datamodule) = Inl TypeError"
  by (simp add: Base_get_split_dirs_def BaseReconstructionDataModule_init_def)

section \<open>The batch provider factory\<close>

text \<open>
  C3. Whenever the training provider has been obtained over a non-empty training adapter, one
  epoch returns batches whose concatenation is exactly \<open>num_samples\<close> draws from the adapter
  (each the sample at an index the generator chose, so repeats are possible), whatever the
  size of the adapter. There are \<open>\<lceil>num_samples / train_batch_size\<rceil>\<close> batches, none empty or
  larger than the train batch size, all but the last of exactly that size, and all of that
  size when it divides the sample count.
\<close>

theorem train_epoch_draws:
  assumes "train_dataset self = Some ds"
    and "ds \<noteq> []"
    and "train_dataloader self = Inr dl"
  shows "\<exists>batches.
           DataLoader_iter dl g = (Inr batches, (\<lambda>i. g (i + nat (num_samples self)))) \<and>
           concat batches = map (\<lambda>i. ds ! (g i mod length ds)) [0..<nat (num_samples self)] \<and>
           int (length (concat batches)) = num_samples self \<and>
           set (concat batches) \<subseteq> set ds \<and>
           int (length batches) =
             \<lceil>real_of_int (num_samples self) / real_of_int (train_batch_size self)\<rceil> \<and>
           (\<forall>batch \<in> set batches. 0 < length batch \<and> int (length batch) \<le> train_batch_size self) \<and>
           (\<forall>batch \<in> set (butlast batches). int (length batch) = train_batch_size self) \<and>
           (train_batch_size self dvd num_samples self \<longrightarrow>
              (\<forall>batch \<in> set batches. int (length batch) = train_batch_size self))"
proof -
  let ?b = "train_batch_size self"
  let ?n = "num_samples self"
  let ?draws = "map (\<lambda>i. ds ! (g i mod length ds)) [0..<nat ?n]"
  let ?batches = "BatchSampler_iter ?b [] ?draws"
  from assms(1,3) have ok: "0 < ?n" "0 \<le> num_workers self" "0 < ?b"
    and dl: "dl = DataLoader ds ?b (num_workers self) (RandomSampler ?n)"
    by (auto simp: train_dataloader_eq split: if_splits)
  have iter: "DataLoader_iter dl g = (Inr ?batches, (\<lambda>i. g (i + nat ?n)))"
    using assms(2) dl by (simp add: DataLoader_iter_random)
  have cat: "concat ?batches = ?draws"
    by (simp add: concat_BatchSampler_iter)
  have len: "int (length ?draws) = ?n"
    using ok(1) by simp
  have sub: "set ?draws \<subseteq> set ds"
    using assms(2) by auto
  have count: "int (length ?batches) = \<lceil>real_of_int ?n / real_of_int ?b\<rceil>"
    using BatchSampler_iter_ceiling [OF ok(3), of ?draws] ok(1) by simp
  have sizes: "\<forall>batch \<in> set ?batches. 0 < length batch \<and> int (length batch) \<le> ?b"
    using BatchSampler_iter_sizes [of ?b "[]" _ ?draws] ok(3) by simp
  have full: "\<forall>batch \<in> set (butlast ?batches). int (length batch) = ?b"
    using BatchSampler_iter_full [of ?b "[]" _ ?draws] ok(3) by simp
  have exact: "?b dvd ?n \<longrightarrow> (\<forall>batch \<in> set ?batches. int (length batch) = ?b)"
  proof
    assume "?b dvd ?n"
    then have "?b dvd int (length ([] :: 'a list) + length ?draws)"
      using ok(1) by simp
    then show "\<forall>batch \<in> set ?batches. int (length batch) = ?b"
      using BatchSampler_iter_exact [of ?b "[]" ?draws] ok(3) by simp
  qed
  show ?thesis
    using iter cat len sub count sizes full exact
    by (intro exI [of _ ?batches]) (simp only: simp_thms)
qed

text \<open>
  The scenario: ten samples in batches of two from three training files give five batches of
  two samples each, for every generator, and some file is drawn more than once.
\<close>

theorem train_epoch_draws_witness:
  "train_dataset (snd (setup_stage scenario_dataset (Some ''fit'') scenario_module)) =
     Some [''a.jpg'', ''b.jpg'', ''c.jpg''] \<and>
   [''a.jpg'', ''b.jpg'', ''c.jpg''] \<noteq> [] \<and>
   train_dataloader (snd (setup_stage scenario_dataset (Some ''fit'') scenario_module)) =
     Inr (DataLoader [''a.jpg'', ''b.jpg'', ''c.jpg''] 2 4 (RandomSampler 10)) \<and>
   (\<forall>g. \<exists>batches g'.
      DataLoader_iter (DataLoader [''a.jpg'', ''b.jpg'', ''c.jpg''] 2 4 (RandomSampler 10)) g =
        (Inr batches, g') \<and>
      length (concat batches) = 10 \<and>
      set (concat batches) \<subseteq> {''a.jpg'', ''b.jpg'', ''c.jpg''} \<and>
      \<not> distinct (concat batches) \<and>
      map length batches = [2, 2, 2, 2, 2])"
proof -
  let ?self = "snd (setup_stage scenario_dataset (Some ''fit'') scenario_module)"
  let ?ds = "[''a.jpg'', ''b.jpg'', ''c.jpg'']"
  let ?dl = "DataLoader ?ds 2 4 (RandomSampler 10)"
  have cfg: "num_samples ?self = 10" "train_batch_size ?self = 2" "num_workers ?self = 4"
    by (simp_all add: setup_stage_fit scenario_module_def)
  have ds: "train_dataset ?self = Some ?ds"
    by (simp add: setup_stage_fit scenario_module_def scenario_dataset_def)
  have ne: "?ds \<noteq> []"
    by simp
  have dl: "train_dataloader ?self = Inr ?dl"
    using ds by (simp add: train_dataloader_eq cfg)
  have "\<exists>batches g'. DataLoader_iter ?dl g = (Inr batches, g') \<and>
          length (concat batches) = 10 \<and> set (concat batches) \<subseteq> set ?ds \<and>
          \<not> distinct (concat batches) \<and>
          map length batches = [2, 2, 2, 2, 2]" for g
  proof -
    from train_epoch_draws [OF ds ne dl, of g] obtain batches where
      iter: "DataLoader_iter ?dl g = (Inr batches, (\<lambda>i. g (i + nat (num_samples ?self))))"
      and len: "int (length (concat batches)) = num_samples ?self"
      and sub: "set (concat batches) \<subseteq> set ?ds"
      and count: "int (length batches) =
          \<lceil>real_of_int (num_samples ?self) / real_of_int (train_batch_size ?self)\<rceil>"
      and exact: "train_batch_size ?self dvd num_samples ?self \<longrightarrow>
          (\<forall>batch \<in> set batches. int (length batch) = train_batch_size ?self)"
      by blast
    from len have len10: "length (concat batches) = 10"
      by (simp add: cfg)
    from count have five: "int (length batches) = 5"
      by (simp add: cfg)
    from exact have "\<forall>batch \<in> set batches. int (length batch) = 2"
      by (simp add: cfg)
    then have "map length batches = replicate (nat 5) (nat 2)"
      using five by (rule map_length_constant)
    then have "map length batches = [2, 2, 2, 2, 2]"
      by (simp add: numeral_eq_Suc)
    moreover have "\<not> distinct (concat batches)"
    proof
      assume "distinct (concat batches)"
      then have "card (set (concat batches)) = length (concat batches)"
        by (rule distinct_card)
      then have "card (set (concat batches)) = 10"
        by (simp only: len10)
      moreover have "card (set (concat batches)) \<le> card (set ?ds)"
        using sub by (intro card_mono) simp_all
      moreover have "card (set ?ds) \<le> 3"
        using card_length [of ?ds] by simp
      ultimately show False
        by simp
    qed
    ultimately have
      "DataLoader_iter ?dl g = (Inr batches, (\<lambda>i. g (i + nat (num_samples ?self)))) \<and>
       length (concat batches) = 10 \<and> set (concat batches) \<subseteq> set ?ds \<and>
       \<not> distinct (concat batches) \<and>
       map length batches = [2, 2, 2, 2, 2]"
      using iter len10 sub by simp
    then show ?thesis
      by (intro exI [of _ batches] exI [of _ "\<lambda>i. g (i + nat (num_samples ?self))"])
  qed
  with ds ne dl show ?thesis
    by simp
qed

text \<open>
  C4. Over an adapter \<open>ds\<close> and with a positive eval batch size \<open>b\<close>, the validation (resp.
  test) provider is returned, unless the worker count is negative, which the library rejects.
  One epoch of it returns \<open>\<lceil>length ds / b\<rceil>\<close> batches; the indices they were fetched at are
  \<open>0, 1, \<dots>, length ds - 1\<close> in this order, so the batches concatenate to \<open>ds\<close> itself, without
  repeats or shuffling. A pass returns the same batches from every generator state, and so
  does a second pass after the first.
\<close>

theorem eval_epoch_sequential:
  assumes "0 < eval_batch_size self"
  shows "\<exists>dl index_batches batches.
           dl = DataLoader ds (eval_batch_size self) (num_workers self) SequentialSampler \<and>
           (val_dataset self = Some ds \<longrightarrow>
              val_dataloader self = (if 0 \<le> num_workers self then Inr dl else Inl ValueError)) \<and>
           (test_dataset self = Some ds \<longrightarrow>
              test_dataloader self = (if 0 \<le> num_workers self then Inr dl else Inl ValueError)) \<and>
           (\<forall>g. fst (batch_indices dl g) = Inr index_batches) \<and>
           (\<forall>g. fst (DataLoader_iter dl g) = Inr batches) \<and>
           (\<forall>g. fst (DataLoader_iter dl (snd (DataLoader_iter dl g))) =
                  fst (DataLoader_iter dl g)) \<and>
           concat index_batches = [0..<length ds] \<and>
           distinct (concat index_batches) \<and>
           batches = map (map (\<lambda>i. ds ! i)) index_batches \<and>
           concat batches = ds \<and>
           int (length batches) = \<lceil>real (length ds) / real_of_int (eval_batch_size self)\<rceil> \<and>
           (\<forall>batch \<in> set (butlast batches). int (length batch) = eval_batch_size self) \<and>
           (\<forall>batch \<in> set batches. 0 < length batch \<and> int (length batch) \<le> eval_batch_size self)"
proof -
  let ?b = "eval_batch_size self"
  let ?dl = "DataLoader ds ?b (num_workers self) SequentialSampler"
  let ?idx = "BatchSampler_iter ?b [] [0..<length ds]"
  let ?batches = "BatchSampler_iter ?b [] ds"
  have val: "val_dataset self = Some ds \<longrightarrow>
      val_dataloader self = (if 0 \<le> num_workers self then Inr ?dl else Inl ValueError)"
    using assms by (simp add: val_dataloader_eq)
  have test: "test_dataset self = Some ds \<longrightarrow>
      test_dataloader self = (if 0 \<le> num_workers self then Inr ?dl else Inl ValueError)"
    using assms by (simp add: test_dataloader_eq)
  have idx: "\<forall>g. fst (batch_indices ?dl g) = Inr ?idx"
    by (simp add: batch_indices_sequential)
  have iter: "\<forall>g. fst (DataLoader_iter ?dl g) = Inr ?batches"
    by (simp add: DataLoader_iter_sequential)
  then have again: "\<forall>g. fst (DataLoader_iter ?dl (snd (DataLoader_iter ?dl g))) =
      fst (DataLoader_iter ?dl g)"
    by simp
  have cat_idx: "concat ?idx = [0..<length ds]"
    by (simp add: concat_BatchSampler_iter)
  then have dist: "distinct (concat ?idx)"
    by simp
  have fetch: "?batches = map (map (\<lambda>i. ds ! i)) ?idx"
    by (simp add: map_BatchSampler_iter map_nth)
  have cat: "concat ?batches = ds"
    by (simp add: concat_BatchSampler_iter)
  have count: "int (length ?batches) = \<lceil>real (length ds) / real_of_int ?b\<rceil>"
    using assms by (rule BatchSampler_iter_ceiling)
  have full: "\<forall>batch \<in> set (butlast ?batches). int (length batch) = ?b"
    using BatchSampler_iter_full [of ?b "[]" _ ds] assms by simp
  have sizes: "\<forall>batch \<in> set ?batches. 0 < length batch \<and> int (length batch) \<le> ?b"
    using BatchSampler_iter_sizes [of ?b "[]" _ ds] assms by simp
  show ?thesis
    using val test idx iter again cat_idx dist fetch cat count full sizes
    by (intro exI [of _ ?dl] exI [of _ ?idx] exI [of _ ?batches]) (simp only: simp_thms)
qed

text \<open>
  The scenario with an eval batch size of two, after \<open>fit\<close> and \<open>test\<close>: both providers are
  returned; the two validation files come in one batch, the five test files in three.
\<close>

theorem eval_epoch_sequential_witness:
  "val_dataloader
     (after_calls scenario_exists scenario_dataset (scenario_module\<lparr>eval_batch_size := 2\<rparr>)
        [Setup (Some ''fit''), Setup (Some ''test'')]) =
     Inr (DataLoader [''d.jpg'', ''e.jpg''] 2 4 SequentialSampler) \<and>
   test_dataloader
     (after_calls scenario_exists scenario_dataset (scenario_module\<lparr>eval_batch_size := 2\<rparr>)
        [Setup (Some ''fit''), Setup (Some ''test'')]) =
     Inr (DataLoader [''f.jpg'', ''g.jpg'', ''h.jpg'', ''i.jpg'', ''j.jpg''] 2 4 SequentialSampler) \<and>
   (\<forall>g. fst (batch_indices (DataLoader [''d.jpg'', ''e.jpg''] 2 4 SequentialSampler) g) =
          Inr [[0, 1]] \<and>
        fst (DataLoader_iter (DataLoader [''d.jpg'', ''e.jpg''] 2 4 SequentialSampler) g) =
          Inr [[''d.jpg'', ''e.jpg'']] \<and>
        fst (batch_indices
          (DataLoader [''f.jpg'', ''g.jpg'', ''h.jpg'', ''i.jpg'', ''j.jpg''] 2 4 SequentialSampler) g) =
          Inr [[0, 1], [2, 3], [4]] \<and>
        fst (DataLoader_iter
          (DataLoader [''f.jpg'', ''g.jpg'', ''h.jpg'', ''i.jpg'', ''j.jpg''] 2 4 SequentialSampler) g) =
          Inr [[''f.jpg'', ''g.jpg''], [''h.jpg'', ''i.jpg''], [''j.jpg'']])"
proof -
  let ?self = "after_calls scenario_exists scenario_dataset
        (scenario_module\<lparr>eval_batch_size := 2\<rparr>) [Setup (Some ''fit''), Setup (Some ''test'')]"
  let ?vs = "[''d.jpg'', ''e.jpg'']"
  let ?ts = "[''f.jpg'', ''g.jpg'', ''h.jpg'', ''i.jpg'', ''j.jpg'']"
  let ?vdl = "DataLoader ?vs 2 4 SequentialSampler"
  let ?tdl = "DataLoader ?ts 2 4 SequentialSampler"
  have self: "?self = scenario_module
      \<lparr>eval_batch_size := 2,
       train_dataset := Some [''a.jpg'', ''b.jpg'', ''c.jpg''],
       val_dataset := Some ?vs,
       test_dataset := Some ?ts,
       effects := [Constructed ''/data/train2014'', Printed ''Loaded 3 train samples'',
         Constructed ''/data/val2014'', Printed ''Loaded 2 val samples'',
         Constructed ''/data/test2014'', Printed ''Loaded 2 test samples'']\<rparr>"
    by (simp add: after_calls_def after_call_def setup_stage_fit setup_stage_test_with_val
        scenario_module_def scenario_dataset_def str_small)
  have vs: "val_dataset ?self = Some ?vs" and ts: "test_dataset ?self = Some ?ts"
    by (simp_all add: self)
  have cfg: "eval_batch_size ?self = 2" "num_workers ?self = 4"
    by (simp_all add: self) (simp add: scenario_module_def)
  have b: "0 < eval_batch_size ?self"
    by (simp add: cfg)
  from eval_epoch_sequential [OF b, of ?vs] obtain vidx vbatches where
    vdl: "val_dataloader ?self = Inr ?vdl"
    and vi: "\<forall>g. fst (batch_indices ?vdl g) = Inr vidx"
    and vb: "\<forall>g. fst (DataLoader_iter ?vdl g) = Inr vbatches"
    using vs by (auto simp: cfg)
  from eval_epoch_sequential [OF b, of ?ts] obtain tidx tbatches where
    tdl: "test_dataloader ?self = Inr ?tdl"
    and ti: "\<forall>g. fst (batch_indices ?tdl g) = Inr tidx"
    and tb: "\<forall>g. fst (DataLoader_iter ?tdl g) = Inr tbatches"
    using ts by (auto simp: cfg)
  have "vidx = [[0, 1]]"
    using vi by (auto simp: batch_indices_sequential upt_conv_Cons Let_def eval_nat_numeral)
  moreover have "vbatches = [[''d.jpg'', ''e.jpg'']]"
    using vb by (simp add: DataLoader_iter_sequential Let_def)
  moreover have "tidx = [[0, 1], [2, 3], [4]]"
    using ti by (auto simp: batch_indices_sequential upt_conv_Cons Let_def eval_nat_numeral)
  moreover have "tbatches = [[''f.jpg'', ''g.jpg''], [''h.jpg'', ''i.jpg''], [''j.jpg'']]"
    using tb by (simp add: DataLoader_iter_sequential Let_def)
  ultimately show ?thesis
    using vdl tdl vi vb ti tb by simp
qed

section \<open>The configuration surface\<close>

text \<open>
  C9. On a parser that declares none of the five option strings, \<open>add_argparse_args\<close> returns
  normally and declares, after the options already there, exactly \<open>data_dir\<close> (string,
  required) and \<open>train_batch_size\<close>, \<open>eval_batch_size\<close>, \<open>num_workers\<close>, \<open>num_samples\<close> (integers,
  defaults 16, 64, 4 and 50000); on a parser that already declares one of them it raises
  ArgumentError. None of the five restricts its values: every converted value passes the
  parser's check, and the constructor copies the four numbers as they are.
\<close>

theorem add_argparse_args_options:
  "((\<forall>flag \<in> set [''--data_dir'', ''--train_batch_size'', ''--eval_batch_size'',
                   ''--num_workers'', ''--num_samples'']. flag \<notin> set (map opt_flag parent)) \<longrightarrow>
      add_argparse_args parent = (Inr (), parent @ snd (add_argparse_args []))) \<and>
   (\<not> (\<forall>flag \<in> set [''--data_dir'', ''--train_batch_size'', ''--eval_batch_size'',
                     ''--num_workers'', ''--num_samples'']. flag \<notin> set (map opt_flag parent)) \<longrightarrow>
      fst (add_argparse_args parent) = Inl ArgumentError) \<and>
   fst (add_argparse_args []) = Inr () \<and>
   map (\<lambda>opt. (opt_flag opt, opt_type opt, opt_required opt, opt_default opt))
       (snd (add_argparse_args [])) =
     [(''--data_dir'', StrType, True, None),
      (''--train_batch_size'', IntType, False, Some (IntValue 16)),
      (''--eval_batch_size'', IntType, False, Some (IntValue 64)),
      (''--num_workers'', IntType, False, Some (IntValue 4)),
      (''--num_samples'', IntType, False, Some (IntValue 50000))] \<and>
   (\<forall>opt \<in> set (snd (add_argparse_args [])). \<forall>v. check_value opt v = Inr v) \<and>
   (\<exists>self :: 'a datamodule.
      Coco2014Reconstruction a = Inr self \<and>
      train_batch_size self = arg_train_batch_size a \<and>
      eval_batch_size self = arg_eval_batch_size a \<and>
      num_workers self = arg_num_workers a \<and>
      num_samples self = arg_num_samples a)"
proof -
  let ?free = "\<forall>flag \<in> set [''--data_dir'', ''--train_batch_size'', ''--eval_batch_size'',
                   ''--num_workers'', ''--num_samples'']. flag \<notin> set (map opt_flag parent)"
  have ok: "?free \<longrightarrow> add_argparse_args parent = (Inr (), parent @ snd (add_argparse_args []))"
    by (simp add: add_argparse_args_def add_argument_def)
  have conflict: "\<not> ?free \<longrightarrow> fst (add_argparse_args parent) = Inl ArgumentError"
    by (auto simp: add_argparse_args_def add_argument_def)
  have empty: "fst (add_argparse_args []) = Inr ()"
    by (simp add: add_argparse_args_def add_argument_def)
  have five: "map (\<lambda>opt. (opt_flag opt, opt_type opt, opt_required opt, opt_default opt))
       (snd (add_argparse_args [])) =
     [(''--data_dir'', StrType, True, None),
      (''--train_batch_size'', IntType, False, Some (IntValue 16)),
      (''--eval_batch_size'', IntType, False, Some (IntValue 64)),
      (''--num_workers'', IntType, False, Some (IntValue 4)),
      (''--num_samples'', IntType, False, Some (IntValue 50000))]"
    by (simp add: add_argparse_args_def add_argument_def)
  have anyval: "\<forall>opt \<in> set (snd (add_argparse_args [])). \<forall>v. check_value opt v = Inr v"
    by (simp add: add_argparse_args_def add_argument_def check_value_def)
  have init: "\<exists>self :: 'a datamodule.
      Coco2014Reconstruction a = Inr self \<and>
      train_batch_size self = arg_train_batch_size a \<and>
      eval_batch_size self = arg_eval_batch_size a \<and>
      num_workers self = arg_num_workers a \<and>
      num_samples self = arg_num_samples a"
    by (simp add: Coco2014Reconstruction_def BaseReconstructionDataModule_init_def
        Coco2014_get_split_dirs_def)
  show ?thesis
    using ok conflict empty five anyval init by (simp only: simp_thms)
qed

text \<open>
  A parser that declares only \<open>--seed\<close> receives the five options; one that already
  declares \<open>--num_workers\<close> makes the call raise; a train batch size of zero passes the parser
  and the constructor.
\<close>

theorem add_argparse_args_options_witness:
  "fst (add_argparse_args
     [\<lparr>opt_flag = ''--seed'', opt_help = ''random seed'', opt_type = IntType,
       opt_required = False, opt_default = Some (IntValue 0), opt_choices = None\<rparr>]) = Inr () \<and>
   map opt_flag (snd (add_argparse_args
     [\<lparr>opt_flag = ''--seed'', opt_help = ''random seed'', opt_type = IntType,
       opt_required = False, opt_default = Some (IntValue 0), opt_choices = None\<rparr>])) =
     [''--seed'', ''--data_dir'', ''--train_batch_size'', ''--eval_batch_size'', ''--num_workers'',
      ''--num_samples''] \<and>
   fst (add_argparse_args
     [\<lparr>opt_flag = ''--num_workers'', opt_help = ''workers'', opt_type = IntType,
       opt_required = False, opt_default = Some (IntValue 0), opt_choices = None\<rparr>]) =
     Inl ArgumentError \<and>
   check_value (snd (add_argparse_args []) ! 1) (IntValue 0) = Inr (IntValue 0) \<and>
   (Coco2014Reconstruction (scenario_args\<lparr>arg_train_batch_size := 0\<rparr>) :: error + string datamodule) =
     Inr (scenario_module\<lparr>train_batch_size := 0\<rparr>)"
proof -
  let ?seed = "[\<lparr>opt_flag = ''--seed'', opt_help = ''random seed'', opt_type = IntType,
       opt_required = False, opt_default = Some (IntValue 0), opt_choices = None\<rparr>]"
  let ?taken = "[\<lparr>opt_flag = ''--num_workers'', opt_help = ''workers'', opt_type = IntType,
       opt_required = False, opt_default = Some (IntValue 0), opt_choices = None\<rparr>]"
  have free: "\<forall>flag \<in> set [''--data_dir'', ''--train_batch_size'', ''--eval_batch_size'',
                   ''--num_workers'', ''--num_samples'']. flag \<notin> set (map opt_flag ?seed)"
    by simp
  have clash: "\<not> (\<forall>flag \<in> set [''--data_dir'', ''--train_batch_size'', ''--eval_batch_size'',
                   ''--num_workers'', ''--num_samples'']. flag \<notin> set (map opt_flag ?taken))"
    by simp
  note on_seed = add_argparse_args_options [of ?seed scenario_args, where 'a = string]
  note on_taken = add_argparse_args_options [of ?taken scenario_args, where 'a = string]
  from on_seed free have added: "add_argparse_args ?seed = (Inr (), ?seed @ snd (add_argparse_args []))"
    by blast
  from on_seed have five: "map (\<lambda>opt. (opt_flag opt, opt_type opt, opt_required opt, opt_default opt))
       (snd (add_argparse_args [])) =
     [(''--data_dir'', StrType, True, None),
      (''--train_batch_size'', IntType, False, Some (IntValue 16)),
      (''--eval_batch_size'', IntType, False, Some (IntValue 64)),
      (''--num_workers'', IntType, False, Some (IntValue 4)),
      (''--num_samples'', IntType, False, Some (IntValue 50000))]"
    by blast
  have "map opt_flag (snd (add_argparse_args [])) =
      map fst (map (\<lambda>opt. (opt_flag opt, opt_type opt, opt_required opt, opt_default opt))
        (snd (add_argparse_args [])))"
    by (simp add: comp_def)
  then have flags: "map opt_flag (snd (add_argparse_args [])) =
      [''--data_dir'', ''--train_batch_size'', ''--eval_batch_size'', ''--num_workers'',
       ''--num_samples'']"
    by (simp only: five) simp
  from on_taken clash have raised: "fst (add_argparse_args ?taken) = Inl ArgumentError"
    by blast
  have "length (snd (add_argparse_args [])) = 5"
    using arg_cong [OF flags, of length] by simp
  then have mem: "snd (add_argparse_args []) ! 1 \<in> set (snd (add_argparse_args []))"
    by simp
  with on_seed have chk: "check_value (snd (add_argparse_args []) ! 1) (IntValue 0) = Inr (IntValue 0)"
    by blast
  have init: "(Coco2014Reconstruction (scenario_args\<lparr>arg_train_batch_size := 0\<rparr>)
           :: error + string datamodule) = Inr (scenario_module\<lparr>train_batch_size := 0\<rparr>)"
    by (simp add: Coco2014Reconstruction_def BaseReconstructionDataModule_init_def
        Coco2014_get_split_dirs_def os_path_join_def scenario_args_def scenario_module_def)
  show ?thesis
    using added flags raised chk init by simp
qed

end
